theory Spec2Isabelle
  imports Complex_Main
begin

section \<open>JavaScript values, exceptions and the device payload\<close>

text \<open>
  The plugin is one file, \<open>index.js\<close>. Its numbers are modelled as exact reals (the
  rounding of IEEE doubles is not modelled), its strings as \<open>string\<close>, a property that
  is absent from an object as \<open>None\<close>, and every exception the code can raise as a value
  of \<open>exn\<close>.
\<close>

datatype exn = ReferenceError string | TypeError string

text \<open>
  The values an observation can carry. \<open>Inherited k\<close> stands for the member named \<open>k\<close>
  that a plain object literal inherits from \<open>Object.prototype\<close>.
\<close>

datatype jsval =
    Undefined
  | NaN
  | JBool bool
  | JNum real
  | JStr string
  | JArr "jsval list"
  | JObj "(string \<times> jsval) list"
  | Inherited string

text \<open>
  The object read as \<open>light.state\<close> or \<open>light.action\<close>: every field the code reads,
  each possibly absent.
\<close>

record hue_state =
  on :: "bool option"
  any_on :: "bool option"
  bri :: "real option"
  colormode :: "string option"
  hue :: "real option"
  sat :: "real option"
  ct :: "real option"
  xy :: "real list option"

text \<open>One entry of the response body: \<open>body[key]\<close>.\<close>

record light =
  name :: "string option"
  modelid :: "string option"
  state :: "hue_state option"
  action :: "hue_state option"

text \<open>One element of \<open>values\<close>, and the delta handed to \<open>app.handleMessage\<close>.\<close>

record obs =
  path :: string
  val :: jsval

record update =
  values_of :: "obs list"

record delta =
  updates :: "update list"

text \<open>The arguments of the callback given to \<open>request\<close>: \<open>(error, response, body)\<close>.\<close>

record req_error =
  message :: "string option"

record http_response =
  statusCode :: int

record reply =
  error :: "req_error option"
  response :: "http_response option"
  body :: "(string \<times> light) list"

text \<open>The plugin configuration \<open>props\<close>.\<close>

record config =
  address :: string
  refreshRate :: "real option"

text \<open>
  The host: \<open>app.setProviderStatus\<close> and \<open>app.setProviderError\<close> are optional;
  \<open>app.handleMessage\<close> and \<open>app.error\<close> are calls that are recorded as effects.
\<close>

record app =
  has_setProviderStatus :: bool
  has_setProviderError :: bool

text \<open>
  Two identifiers used by \<open>index.js\<close> are declared nowhere in it: \<open>hueType\<close> (line 94
  and 98) and \<open>load\<close> (line 66). Evaluating such an identifier looks it up in the global
  environment, which is therefore an input of the model: \<open>None\<close> is "not defined", where
  the evaluation raises a \<open>ReferenceError\<close>. A global \<open>load\<close> is foreign code that cannot
  reach the plugin's local variables; all that is known of a call is whether it returns
  or throws.
\<close>

datatype ext_call = ExtReturns | ExtThrows exn

record globals =
  hueType :: "string option"
  load :: "ext_call option"

text \<open>The global environment of plain Node.js, which defines neither identifier.\<close>

definition node_globals :: globals where
  "node_globals = \<lparr>hueType = None, load = None\<rparr>"

text \<open>
  The package \<open>camelcase\<close> is not part of the repository: it is a parameter, a function
  from the display name (a string, or \<open>None\<close> for \<open>undefined\<close>) to a string or an
  exception.
\<close>

type_synonym camel = "string option \<Rightarrow> exn + string"

section \<open>Effects and plugin state\<close>

datatype effect =
    HandleMessage string delta
  | SetProviderStatus string
  | SetProviderError "string option"
  | AppError string
  | Request string string
  | ExternalCall string
  | SetInterval nat real
  | ClearInterval nat

text \<open>
  The variables of the closure (\<open>statusMessage\<close>, \<open>sentUnavailableAlarm\<close>, \<open>onStop\<close>;
  the first two start as \<open>undefined\<close>), together with the host's table of armed
  interval timers (identifier and period in milliseconds).
\<close>

record plugin_state =
  statusMessage :: "string option"
  sentUnavailableAlarm :: "bool option"
  onStop :: "nat list"
  timers :: "(nat \<times> real) list"
  next_timer :: nat

definition init_state :: plugin_state where
  "init_state = \<lparr>statusMessage = None, sentUnavailableAlarm = None, onStop = [],
     timers = [], next_timer = 0\<rparr>"

text \<open>What a piece of code leaves behind: the state, the effects in order, and the
  exception it ended with, if any. Effects before a throw have happened.\<close>

record outcome =
  st :: plugin_state
  effects :: "effect list"
  thrown :: "exn option"

section \<open>Constants of the module\<close>

definition base :: string where
  "base = ''electrical.switches.hue''"

definition colorModeMap :: "(string \<times> string) list" where
  "colorModeMap = [(''hs'', ''hsb''), (''ct'', ''temperature''), (''xy'', ''cie'')]"

definition object_prototype_names :: "string list" where
  "object_prototype_names = [''constructor'', ''hasOwnProperty'', ''isPrototypeOf'',
     ''propertyIsEnumerable'', ''toLocaleString'', ''toString'', ''valueOf'',
     ''__defineGetter__'', ''__defineSetter__'', ''__lookupGetter__'',
     ''__lookupSetter__'', ''__proto__'']"

text \<open>\<open>colorModeMap[k]\<close>: an own property, else an inherited one, else \<open>undefined\<close>.\<close>

definition colorModeMap_get :: "string \<Rightarrow> jsval" where
  "colorModeMap_get k =
     (case map_of colorModeMap k of
        Some v \<Rightarrow> JStr v
      | None \<Rightarrow> if k \<in> set object_prototype_names then Inherited k else Undefined)"

definition plugin_id :: string where
  "plugin_id = ''signalk-redhead-daq''"

definition alarm_path :: string where
  "alarm_path = ''notifications.redhead.daqUnavailable''"

section \<open>The functions of \<open>index.js\<close>\<close>

text \<open>\<open>getAlarmDelta(app, path, state, message)\<close>, lines 203 to 221.\<close>

definition getAlarmDelta :: "string \<Rightarrow> string \<Rightarrow> string \<Rightarrow> delta" where
  "getAlarmDelta p s m =
     \<lparr>updates = [\<lparr>values_of = [\<lparr>path = p,
        val = JObj [(''state'', JStr s),
                    (''method'', JArr [JStr ''visual'', JStr ''sound'']),
                    (''message'', JStr m)]\<rparr>]\<rparr>]\<rparr>"

text \<open>Truthiness of an optional number: absent and zero are falsy.\<close>

fun truthy_num :: "real option \<Rightarrow> bool" where
  "truthy_num None = False"
| "truthy_num (Some x) = (x \<noteq> 0)"

text \<open>Conversions of an optional field to the value the code passes on.\<close>

fun of_bool_field :: "bool option \<Rightarrow> jsval" where
  "of_bool_field None = Undefined"
| "of_bool_field (Some b) = JBool b"

fun of_str_field :: "string option \<Rightarrow> jsval" where
  "of_str_field None = Undefined"
| "of_str_field (Some s) = JStr s"

text \<open>\<open>x / d\<close> for a non-zero constant \<open>d\<close>: \<open>undefined / d\<close> is \<open>NaN\<close>.\<close>

fun div_field :: "real option \<Rightarrow> real \<Rightarrow> jsval" where
  "div_field None d = NaN"
| "div_field (Some x) d = JNum (x / d)"

text \<open>\<open>xs[i]\<close> on an array of numbers: \<open>undefined\<close> out of range.\<close>

definition index_num :: "real list \<Rightarrow> nat \<Rightarrow> jsval" where
  "index_num xs i = (if i < length xs then JNum (xs ! i) else Undefined)"

text \<open>Template interpolation and \<open>+\<close> of a possibly undefined string.\<close>

fun to_string :: "string option \<Rightarrow> string" where
  "to_string None = ''undefined''"
| "to_string (Some s) = s"

text \<open>Lines 126 to 156: what is pushed when \<open>state.colormode\<close> is truthy.\<close>

definition color_values :: "string \<Rightarrow> hue_state \<Rightarrow> obs list" where
  "color_values p s =
     (case colormode s of
        None \<Rightarrow> []
      | Some cm \<Rightarrow>
          if cm = [] then []
          else
            [\<lparr>path = p @ ''.colorMode'', val = colorModeMap_get cm\<rparr>]
            @ (if truthy_num (hue s) \<and> truthy_num (sat s)
               then [\<lparr>path = p @ ''.hue'',
                       val = div_field (map_option (\<lambda>h. h / 182.04) (hue s)) 360\<rparr>,
                     \<lparr>path = p @ ''.saturation'', val = div_field (sat s) 255\<rparr>]
               else [])
            @ (case ct s of
                 None \<Rightarrow> []
               | Some c \<Rightarrow>
                   if c = 0 then []
                   else [\<lparr>path = p @ ''.temperature'', val = JNum (1000000 / c)\<rparr>])
            @ (case xy s of
                 None \<Rightarrow> []
               | Some c \<Rightarrow>
                   [\<lparr>path = p @ ''.cie'',
                     val = JObj [(''x'', index_num c 0), (''y'', index_num c 1)]\<rparr>]))"

text \<open>
  Lines 92 to 156, the body of the \<open>forEach\<close> up to the call of \<open>handleMessage\<close>:
  the list \<open>values\<close> built for one record, or the exception raised on the way.
\<close>

definition light_values :: "globals \<Rightarrow> camel \<Rightarrow> light \<Rightarrow> exn + obs list" where
  "light_values g cc l =
     (case hueType g of
        None \<Rightarrow> Inl (ReferenceError ''hueType'')
      | Some ht \<Rightarrow>
          (case cc (name l) of
             Inl e \<Rightarrow> Inl e
           | Inr c \<Rightarrow>
               let p = base @ ''.'' @ ht @ ''.'' @ c in
               (case state l of
                  None \<Rightarrow> Inl (TypeError (if ht = ''groups'' then ''any_on'' else ''on''))
                | Some ls \<Rightarrow>
                    (case (if ht = ''groups'' then action l else Some ls) of
                       None \<Rightarrow> Inl (TypeError ''bri'')
                     | Some s \<Rightarrow>
                         Inr ([\<lparr>path = p @ ''.state'',
                                 val = of_bool_field (if ht = ''groups'' then any_on ls else on ls)\<rparr>,
                               \<lparr>path = p @ ''.dimmingLevel'', val = div_field (bri s) 255\<rparr>,
                               \<lparr>path = p @ ''.meta'',
                                 val = JObj [(''type'', JStr ''dimmer''),
                                             (''displayName'', of_str_field (name l)),
                                             (''hueModel'', of_str_field (modelid l)),
                                             (''canDimWhenOff'', JBool False)]\<rparr>]
                              @ color_values p s)))))"

text \<open>
  Lines 91 to 165: \<open>_.keys(body).forEach(...)\<close>. Each record is published by its own
  call of \<open>handleMessage\<close>; an exception ends the loop, the earlier calls stay done.
\<close>

fun forEach_keys :: "globals \<Rightarrow> camel \<Rightarrow> (string \<times> light) list \<Rightarrow> string list
    \<Rightarrow> effect list \<times> exn option" where
  "forEach_keys g cc b [] = ([], None)"
| "forEach_keys g cc b (k # ks) =
     (case map_of b k of
        None \<Rightarrow> ([], Some (TypeError ''name''))
      | Some l \<Rightarrow>
          (case light_values g cc l of
             Inl e \<Rightarrow> ([], Some e)
           | Inr vs \<Rightarrow>
               (HandleMessage plugin_id \<lparr>updates = [\<lparr>values_of = vs\<rparr>]\<rparr>
                  # fst (forEach_keys g cc b ks),
                snd (forEach_keys g cc b ks))))"

text \<open>\<open>setProviderStatus\<close> and \<open>setProviderError\<close>, lines 34 to 44.\<close>

definition setProviderStatus :: "app \<Rightarrow> string \<Rightarrow> plugin_state \<Rightarrow> plugin_state \<times> effect list" where
  "setProviderStatus a msg s =
     (s\<lparr>statusMessage := Some msg\<rparr>,
      if has_setProviderStatus a then [SetProviderStatus msg] else [])"

definition setProviderError :: "app \<Rightarrow> string option \<Rightarrow> plugin_state \<Rightarrow> plugin_state \<times> effect list" where
  "setProviderError a msg s =
     (s\<lparr>statusMessage := Some (''error: '' @ to_string msg)\<rparr>,
      if has_setProviderError a then [SetProviderError msg] else [])"

text \<open>
  \<open>printRequestError(error, response)\<close>, lines 58 to 63. Reading \<open>error.message\<close>
  when \<open>error\<close> is \<open>null\<close> raises a \<open>TypeError\<close> before anything is set.
\<close>

definition printRequestError :: "app \<Rightarrow> req_error option \<Rightarrow> plugin_state \<Rightarrow> outcome" where
  "printRequestError a err s =
     (case err of
        None \<Rightarrow> \<lparr>st = s, effects = [], thrown = Some (TypeError ''message'')\<rparr>
      | Some e \<Rightarrow>
          \<lparr>st = fst (setProviderError a (message e) s),
           effects = snd (setProviderError a (message e) s)
                     @ [AppError (''error: '' @ to_string (message e))],
           thrown = None\<rparr>)"

text \<open>
  The test of line 78, \<open>!error && response.statusCode === 200\<close>: with no error and no
  response the property read raises a \<open>TypeError\<close>.
\<close>

definition fetch_ok :: "reply \<Rightarrow> exn + bool" where
  "fetch_ok r =
     (case error r of
        Some e \<Rightarrow> Inr False
      | None \<Rightarrow>
          (case response r of
             None \<Rightarrow> Inl (TypeError ''statusCode'')
           | Some resp \<Rightarrow> Inr (statusCode resp = 200)))"

text \<open>The callback of lines 77 to 175, run on the reply of one request.\<close>

definition loadInfo_callback :: "app \<Rightarrow> globals \<Rightarrow> camel \<Rightarrow> string \<Rightarrow> reply \<Rightarrow> plugin_state \<Rightarrow> outcome" where
  "loadInfo_callback a g cc ip r s =
     (case fetch_ok r of
        Inl e \<Rightarrow> \<lparr>st = s, effects = [], thrown = Some e\<rparr>
      | Inr True \<Rightarrow>
          let s1 = fst (setProviderStatus a (''Connected to '' @ ip) s);
              e1 = snd (setProviderStatus a (''Connected to '' @ ip) s);
              s2 = (if sentUnavailableAlarm s1 = Some True
                    then s1\<lparr>sentUnavailableAlarm := Some False\<rparr> else s1);
              e2 = (if sentUnavailableAlarm s1 = Some True
                    then [HandleMessage plugin_id
                            (getAlarmDelta alarm_path ''normal''
                               ''The DAQ module is now available'')]
                    else []);
              lp = forEach_keys g cc (body r) (map fst (body r))
          in \<lparr>st = s2, effects = e1 @ e2 @ fst lp, thrown = snd lp\<rparr>
      | Inr False \<Rightarrow>
          let e1 = [HandleMessage plugin_id
                      (getAlarmDelta alarm_path ''alert'' ''The DAQ module is unavailable'')];
              s1 = s\<lparr>sentUnavailableAlarm := Some True\<rparr>;
              pr = printRequestError a (error r) s1
          in \<lparr>st = st pr, effects = e1 @ effects pr, thrown = thrown pr\<rparr>)"

text \<open>\<open>loadInfo(props, ip)\<close>, lines 73 to 76: the request it issues.\<close>

definition loadInfo :: "string \<Rightarrow> effect list" where
  "loadInfo ip = [Request (''http://'' @ ip @ ''/state.xml'') ''GET'']"

text \<open>\<open>(props.refreshRate || 5) * 1000\<close>, line 69.\<close>

definition interval_ms :: "config \<Rightarrow> real" where
  "interval_ms props =
     (case refreshRate props of
        None \<Rightarrow> 5
      | Some x \<Rightarrow> if x = 0 then 5 else x) * 1000"

text \<open>
  \<open>startLoading(props, ip)\<close>, lines 65 to 71. The first statement calls \<open>load\<close>; the
  timer is armed only when that call returns.
\<close>

definition startLoading :: "globals \<Rightarrow> config \<Rightarrow> string \<Rightarrow> plugin_state \<Rightarrow> outcome" where
  "startLoading g props ip s =
     (case load g of
        None \<Rightarrow> \<lparr>st = s, effects = [], thrown = Some (ReferenceError ''load'')\<rparr>
      | Some (ExtThrows e) \<Rightarrow> \<lparr>st = s, effects = [ExternalCall ''load''], thrown = Some e\<rparr>
      | Some ExtReturns \<Rightarrow>
          \<lparr>st = s\<lparr>onStop := onStop s @ [next_timer s],
                  timers := timers s @ [(next_timer s, interval_ms props)],
                  next_timer := Suc (next_timer s)\<rparr>,
           effects = [ExternalCall ''load'', SetInterval (next_timer s) (interval_ms props)],
           thrown = None\<rparr>)"

text \<open>\<open>plugin.start\<close>, \<open>plugin.statusMessage\<close> and \<open>plugin.stop\<close>, lines 46 to 56.\<close>

definition plugin_start :: "globals \<Rightarrow> config \<Rightarrow> plugin_state \<Rightarrow> outcome" where
  "plugin_start g props s = startLoading g props (address props) s"

definition plugin_statusMessage :: "plugin_state \<Rightarrow> string option" where
  "plugin_statusMessage s = statusMessage s"

definition plugin_stop :: "plugin_state \<Rightarrow> outcome" where
  "plugin_stop s =
     \<lparr>st = s\<lparr>timers := filter (\<lambda>t. fst t \<notin> set (onStop s)) (timers s)\<rparr>,
      effects = map ClearInterval (onStop s),
      thrown = None\<rparr>"

text \<open>One firing of the interval timer, line 68: it calls \<open>loadInfo\<close>.\<close>

definition timer_fire :: "string \<Rightarrow> effect list" where
  "timer_fire ip = loadInfo ip"

section \<open>Observations of a run\<close>

text \<open>The observations one effect hands to the host: those of a call of \<open>handleMessage\<close>.\<close>

fun published :: "effect \<Rightarrow> obs list" where
  "published (HandleMessage i d) = concat (map values_of (updates d))"
| "published (SetProviderStatus m) = []"
| "published (SetProviderError m) = []"
| "published (AppError m) = []"
| "published (Request u m) = []"
| "published (ExternalCall f) = []"
| "published (SetInterval i ms) = []"
| "published (ClearInterval i) = []"

text \<open>The alarm observations among the effects of a tick: those at the alarm path.\<close>

definition alarm_obs :: "effect list \<Rightarrow> obs list" where
  "alarm_obs es = filter (\<lambda>ob. path ob = alarm_path) (concat (map published es))"

text \<open>The two alarm observations of lines 83 to 87 and 167 to 171, written out.\<close>

definition alert_obs :: obs where
  "alert_obs = \<lparr>path = ''notifications.redhead.daqUnavailable'',
     val = JObj [(''state'', JStr ''alert''),
                 (''method'', JArr [JStr ''visual'', JStr ''sound'']),
                 (''message'', JStr ''The DAQ module is unavailable'')]\<rparr>"

definition normal_obs :: obs where
  "normal_obs = \<lparr>path = ''notifications.redhead.daqUnavailable'',
     val = JObj [(''state'', JStr ''normal''),
                 (''method'', JArr [JStr ''visual'', JStr ''sound'']),
                 (''message'', JStr ''The DAQ module is now available'')]\<rparr>"

text \<open>What one record emits (nothing when its translation raises), and the values
  emitted at one path.\<close>

definition emitted :: "globals \<Rightarrow> camel \<Rightarrow> light \<Rightarrow> obs list" where
  "emitted g cc l = (case light_values g cc l of Inl e \<Rightarrow> [] | Inr vs \<Rightarrow> vs)"

definition values_at :: "string \<Rightarrow> obs list \<Rightarrow> jsval list" where
  "values_at p vs = map val (filter (\<lambda>ob. path ob = p) vs)"

text \<open>
  The object the fields of a record are read from (lines 98 to 104): \<open>light.action\<close> and
  \<open>light.state.any_on\<close> when \<open>hueType\<close> is \<open>groups\<close>, else \<open>light.state\<close> and
  \<open>light.state.on\<close>. A record is well formed for a kind when its translation reads no
  property of \<open>undefined\<close> and \<open>camelCase\<close> accepts its name.
\<close>

definition state_source :: "string \<Rightarrow> light \<Rightarrow> hue_state option" where
  "state_source k l = (if k = ''groups'' then action l else state l)"

definition on_source :: "string \<Rightarrow> hue_state \<Rightarrow> bool option" where
  "on_source k ls = (if k = ''groups'' then any_on ls else on ls)"

definition well_formed :: "string \<Rightarrow> camel \<Rightarrow> light \<Rightarrow> bool" where
  "well_formed k cc l =
     ((case cc (name l) of Inl e \<Rightarrow> False | Inr c \<Rightarrow> True)
      \<and> state l \<noteq> None \<and> state_source k l \<noteq> None)"

definition record_delta :: "obs list \<Rightarrow> effect" where
  "record_delta vs = HandleMessage plugin_id \<lparr>updates = [\<lparr>values_of = vs\<rparr>]\<rparr>"

section \<open>Sample inputs\<close>

text \<open>
  Concrete inputs for the examples below. \<open>sample_camel\<close> stands in for the package
  \<open>camelcase\<close> on the names used here: it sends \<open>Lamp1\<close> to \<open>lamp1\<close>, as the package
  does, leaves the other names as they are, and raises on \<open>undefined\<close>.
\<close>

definition sample_camel :: camel where
  "sample_camel n =
     (case n of
        None \<Rightarrow> Inl (TypeError ''camelCase'')
      | Some s \<Rightarrow> if s = ''Lamp1'' then Inr ''lamp1'' else Inr s)"

definition lamp1_state :: hue_state where
  "lamp1_state = \<lparr>on = Some True, any_on = None, bri = Some 128, colormode = Some ''hs'',
     hue = Some 10000, sat = Some 200, ct = None, xy = None\<rparr>"

definition lamp1 :: light where
  "lamp1 = \<lparr>name = Some ''Lamp1'', modelid = None, state = Some lamp1_state, action = None\<rparr>"

definition group1 :: light where
  "group1 = \<lparr>name = Some ''salon'', modelid = None,
     state = Some \<lparr>on = None, any_on = Some False, bri = None, colormode = None,
                   hue = None, sat = None, ct = None, xy = None\<rparr>,
     action = Some \<lparr>on = Some False, any_on = None, bri = Some 51, colormode = Some ''ct'',
                    hue = None, sat = None, ct = Some 250, xy = None\<rparr>\<rparr>"

definition gradient_state :: hue_state where
  "gradient_state = \<lparr>on = Some True, any_on = None, bri = Some 128,
     colormode = Some ''gradient'', hue = None, sat = None, ct = None, xy = None\<rparr>"

definition gradient_lamp :: light where
  "gradient_lamp = \<lparr>name = Some ''Lamp1'', modelid = Some ''LCX004'',
     state = Some gradient_state, action = None\<rparr>"

definition ct_only_lamp :: light where
  "ct_only_lamp = \<lparr>name = Some ''Lamp1'', modelid = Some ''LTW001'',
     state = Some \<lparr>on = Some True, any_on = None, bri = Some 128, colormode = None,
                   hue = None, sat = None, ct = Some 366, xy = None\<rparr>,
     action = None\<rparr>"

definition ct_state :: hue_state where
  "ct_state = \<lparr>on = Some True, any_on = None, bri = Some 128, colormode = Some ''ct'',
     hue = None, sat = None, ct = Some 250, xy = None\<rparr>"

definition ct_lamp :: light where
  "ct_lamp = \<lparr>name = Some ''Lamp1'', modelid = Some ''LTW001'',
     state = Some ct_state, action = None\<rparr>"

definition lights_globals :: globals where
  "lights_globals = \<lparr>hueType = Some ''lights'', load = None\<rparr>"

definition groups_globals :: globals where
  "groups_globals = \<lparr>hueType = Some ''groups'', load = None\<rparr>"

definition sample_app :: app where
  "sample_app = \<lparr>has_setProviderStatus = True, has_setProviderError = True\<rparr>"

definition sample_ip :: string where
  "sample_ip = ''192.168.1.20''"

definition sample_config :: config where
  "sample_config = \<lparr>address = ''192.168.1.20'', refreshRate = None\<rparr>"

definition refused_reply :: reply where
  "refused_reply = \<lparr>error = Some \<lparr>message = Some ''connect ECONNREFUSED''\<rparr>,
     response = None, body = []\<rparr>"

definition http_500_reply :: reply where
  "http_500_reply = \<lparr>error = None, response = Some \<lparr>statusCode = 500\<rparr>, body = []\<rparr>"

definition lamp1_reply :: reply where
  "lamp1_reply = \<lparr>error = None, response = Some \<lparr>statusCode = 200\<rparr>,
     body = [(''1'', lamp1)]\<rparr>"

definition group1_reply :: reply where
  "group1_reply = \<lparr>error = None, response = Some \<lparr>statusCode = 200\<rparr>,
     body = [(''1'', group1)]\<rparr>"

definition unavailable_state :: plugin_state where
  "unavailable_state = init_state\<lparr>sentUnavailableAlarm := Some True\<rparr>"


section \<open>The alarm observations of a tick\<close>

lemma alarm_obs_append: "alarm_obs (xs @ ys) = alarm_obs xs @ alarm_obs ys"
  by (simp add: alarm_obs_def)

lemma alarm_obs_printRequestError: "alarm_obs (effects (printRequestError a err s)) = []"
  by (cases err) (simp_all add: printRequestError_def setProviderError_def alarm_obs_def)

lemma sent_printRequestError:
  "sentUnavailableAlarm (st (printRequestError a err s)) = sentUnavailableAlarm s"
  by (cases err) (simp_all add: printRequestError_def setProviderError_def)

lemma alarm_obs_alert:
  "alarm_obs [HandleMessage i (getAlarmDelta alarm_path ''alert'' ''The DAQ module is unavailable'')]
     = [alert_obs]"
  by (simp add: alarm_obs_def getAlarmDelta_def alarm_path_def alert_obs_def)

lemma alarm_obs_normal:
  "alarm_obs [HandleMessage i (getAlarmDelta alarm_path ''normal'' ''The DAQ module is now available'')]
     = [normal_obs]"
  by (simp add: alarm_obs_def getAlarmDelta_def alarm_path_def normal_obs_def)

lemma callback_failing:
  assumes "fetch_ok r = Inr False"
  shows "loadInfo_callback a g cc ip r s =
    \<lparr>st = st (printRequestError a (error r) (s\<lparr>sentUnavailableAlarm := Some True\<rparr>)),
     effects = [HandleMessage plugin_id
                  (getAlarmDelta alarm_path ''alert'' ''The DAQ module is unavailable'')]
               @ effects (printRequestError a (error r) (s\<lparr>sentUnavailableAlarm := Some True\<rparr>)),
     thrown = thrown (printRequestError a (error r) (s\<lparr>sentUnavailableAlarm := Some True\<rparr>))\<rparr>"
  using assms by (simp add: loadInfo_callback_def Let_def)

lemma failing_any:
  assumes "fetch_ok r = Inr False"
  shows "alarm_obs (effects (loadInfo_callback a g cc ip r s)) = [alert_obs]
       \<and> sentUnavailableAlarm (st (loadInfo_callback a g cc ip r s)) = Some True"
proof -
  have "alarm_obs (effects (loadInfo_callback a g cc ip r s)) = [alert_obs]"
    unfolding callback_failing [OF assms]
    using alarm_obs_append [of "[HandleMessage plugin_id
                  (getAlarmDelta alarm_path ''alert'' ''The DAQ module is unavailable'')]"]
    by (simp add: alarm_obs_alert alarm_obs_printRequestError)
  moreover have "sentUnavailableAlarm (st (loadInfo_callback a g cc ip r s)) = Some True"
    unfolding callback_failing [OF assms] by (simp add: sent_printRequestError)
  ultimately show ?thesis by simp
qed

text \<open>Every observation of a record lies under \<open>base\<close>, so none is an alarm.\<close>

lemma color_values_paths: "ob \<in> set (color_values p s) \<Longrightarrow> \<exists>t. path ob = p @ t"
  by (auto simp: color_values_def split: option.splits if_splits)

lemma light_values_paths:
  "light_values g cc l = Inr vs \<Longrightarrow> ob \<in> set vs \<Longrightarrow> take (length base) (path ob) = base"
  by (auto simp: light_values_def Let_def split: option.splits sum.splits
      dest!: color_values_paths)

lemma light_values_not_alarm:
  assumes "light_values g cc l = Inr vs" "ob \<in> set vs"
  shows "path ob \<noteq> alarm_path"
proof
  assume "path ob = alarm_path"
  with light_values_paths [OF assms] have "take (length base) alarm_path = base"
    by simp
  then show False by (simp add: base_def alarm_path_def)
qed

lemma alarm_obs_Cons: "alarm_obs (e # es) = alarm_obs [e] @ alarm_obs es"
  by (simp add: alarm_obs_def)

lemma alarm_obs_forEach: "alarm_obs (fst (forEach_keys g cc b ks)) = []"
proof (induction ks)
  case Nil
  then show ?case by (simp add: alarm_obs_def)
next
  case (Cons k ks)
  show ?case
  proof (cases "map_of b k")
    case None
    then show ?thesis by (simp add: alarm_obs_def)
  next
    case (Some l)
    show ?thesis
    proof (cases "light_values g cc l")
      case (Inl e)
      with Some show ?thesis by (simp add: alarm_obs_def)
    next
      case (Inr vs)
      have "filter (\<lambda>ob. path ob = alarm_path) vs = []"
        using light_values_not_alarm [OF Inr] by (simp add: filter_empty_conv)
      then have "alarm_obs [HandleMessage plugin_id \<lparr>updates = [\<lparr>values_of = vs\<rparr>]\<rparr>] = []"
        by (simp add: alarm_obs_def)
      with Some Inr Cons.IH show ?thesis
        using alarm_obs_Cons [of "HandleMessage plugin_id \<lparr>updates = [\<lparr>values_of = vs\<rparr>]\<rparr>"
            "fst (forEach_keys g cc b ks)"]
        by simp
    qed
  qed
qed

lemma callback_ok:
  assumes "fetch_ok r = Inr True"
  shows "loadInfo_callback a g cc ip r s =
    \<lparr>st = (if sentUnavailableAlarm s = Some True
           then s\<lparr>statusMessage := Some (''Connected to '' @ ip), sentUnavailableAlarm := Some False\<rparr>
           else s\<lparr>statusMessage := Some (''Connected to '' @ ip)\<rparr>),
     effects = (if has_setProviderStatus a then [SetProviderStatus (''Connected to '' @ ip)] else [])
        @ (if sentUnavailableAlarm s = Some True
           then [HandleMessage plugin_id
                   (getAlarmDelta alarm_path ''normal'' ''The DAQ module is now available'')]
           else [])
        @ fst (forEach_keys g cc (body r) (map fst (body r))),
     thrown = snd (forEach_keys g cc (body r) (map fst (body r)))\<rparr>"
  using assms by (simp add: loadInfo_callback_def Let_def setProviderStatus_def)

lemma alarm_obs_status: "alarm_obs (if c then [SetProviderStatus m] else []) = []"
  by (simp add: alarm_obs_def)

lemma ok_tick:
  assumes "fetch_ok r = Inr True"
  shows "(sentUnavailableAlarm s = Some True \<longrightarrow>
            alarm_obs (effects (loadInfo_callback a g cc ip r s)) = [normal_obs]
          \<and> sentUnavailableAlarm (st (loadInfo_callback a g cc ip r s)) = Some False
          \<and> statusMessage (st (loadInfo_callback a g cc ip r s)) = Some (''Connected to '' @ ip))
       \<and> (sentUnavailableAlarm s \<noteq> Some True \<longrightarrow>
            alarm_obs (effects (loadInfo_callback a g cc ip r s)) = [])"
  unfolding callback_ok [OF assms]
  using alarm_obs_Cons [of "HandleMessage plugin_id
      (getAlarmDelta alarm_path ''normal'' ''The DAQ module is now available'')"
      "fst (forEach_keys g cc (body r) (map fst (body r)))"]
  by (simp add: alarm_obs_append alarm_obs_status alarm_obs_forEach alarm_obs_normal)

lemma light_values_bound:
  assumes "hueType g = Some k" "cc (name l) = Inr c" "state l = Some ls" "state_source k l = Some s"
  shows "light_values g cc l =
    Inr ([\<lparr>path = base @ ''.'' @ k @ ''.'' @ c @ ''.state'', val = of_bool_field (on_source k ls)\<rparr>,
          \<lparr>path = base @ ''.'' @ k @ ''.'' @ c @ ''.dimmingLevel'', val = div_field (bri s) 255\<rparr>,
          \<lparr>path = base @ ''.'' @ k @ ''.'' @ c @ ''.meta'',
            val = JObj [(''type'', JStr ''dimmer''),
                        (''displayName'', of_str_field (name l)),
                        (''hueModel'', of_str_field (modelid l)),
                        (''canDimWhenOff'', JBool False)]\<rparr>]
         @ color_values (base @ ''.'' @ k @ ''.'' @ c) s)"
  using assms by (cases "k = ''groups''") (simp_all add: light_values_def Let_def state_source_def on_source_def)

lemma light_values_unbound:
  "hueType g = None \<Longrightarrow> light_values g cc l = Inl (ReferenceError ''hueType'')"
  by (simp add: light_values_def)

lemma well_formed_Inr:
  assumes "hueType g = Some k" "well_formed k cc l"
  shows "\<exists>vs. light_values g cc l = Inr vs"
proof -
  from assms(2) obtain c ls s where "cc (name l) = Inr c" "state l = Some ls" "state_source k l = Some s"
    by (cases "cc (name l)") (auto simp: well_formed_def)
  with assms(1) show ?thesis
    using light_values_bound [of g k cc l c ls s] by blast
qed

lemma forEach_well_formed:
  assumes "hueType g = Some k"
    and "list_all (well_formed k cc) (map snd b)"
    and "map_of b key = Some l" "key \<in> set ks"
    and "set ks \<subseteq> fst ` set b"
  shows "\<exists>vs. light_values g cc l = Inr vs \<and> record_delta vs \<in> set (fst (forEach_keys g cc b ks))"
  using assms(4,5)
proof (induction ks)
  case Nil
  then show ?case by simp
next
  case (Cons x xs)
  from Cons.prems(2) obtain lx where lx: "map_of b x = Some lx"
    by (metis domD dom_map_of_conv_image_fst list.set_intros(1) subset_iff)
  then have "lx \<in> snd ` set b" by (metis map_of_SomeD snd_conv image_eqI)
  with assms(2) have "well_formed k cc lx" by (auto simp: list_all_iff)
  then obtain vx where vx: "light_values g cc lx = Inr vx"
    using well_formed_Inr [OF assms(1)] by blast
  show ?case
  proof (cases "key = x")
    case True
    with lx assms(3) have "lx = l" by simp
    with lx vx show ?thesis by (simp add: True record_delta_def)
  next
    case False
    with Cons.prems have "key \<in> set xs" "set xs \<subseteq> fst ` set b" by auto
    from Cons.IH [OF this] lx vx show ?thesis by auto
  qed
qed

lemma emitted_bound:
  assumes "hueType g = Some k" "cc (name l) = Inr c" "state l = Some ls" "state_source k l = Some s"
  shows "emitted g cc l =
    [\<lparr>path = base @ ''.'' @ k @ ''.'' @ c @ ''.state'', val = of_bool_field (on_source k ls)\<rparr>,
     \<lparr>path = base @ ''.'' @ k @ ''.'' @ c @ ''.dimmingLevel'', val = div_field (bri s) 255\<rparr>,
     \<lparr>path = base @ ''.'' @ k @ ''.'' @ c @ ''.meta'',
       val = JObj [(''type'', JStr ''dimmer''),
                   (''displayName'', of_str_field (name l)),
                   (''hueModel'', of_str_field (modelid l)),
                   (''canDimWhenOff'', JBool False)]\<rparr>]
    @ color_values (base @ ''.'' @ k @ ''.'' @ c) s"
  using light_values_bound [of g k cc l c ls s] assms by (simp add: emitted_def)

lemma colorMode_at:
  assumes "colormode s = Some cm" "cm \<noteq> []"
  shows "values_at (p @ ''.colorMode'') (color_values p s) = [colorModeMap_get cm]"
  using assms by (simp add: values_at_def color_values_def split: option.splits)

lemma temperature_at:
  assumes "colormode s = Some cm" "cm \<noteq> []" "ct s = Some t" "t \<noteq> 0"
  shows "values_at (p @ ''.temperature'') (color_values p s) = [JNum (1000000 / t)]"
  using assms by (simp add: values_at_def color_values_def split: option.splits)

lemma temperature_none:
  assumes "colormode s = None \<or> colormode s = Some []"
  shows "values_at (p @ ''.temperature'') (color_values p s) = []"
  using assms by (auto simp: values_at_def color_values_def)

lemma values_at_append: "values_at p (xs @ ys) = values_at p xs @ values_at p ys"
  by (simp add: values_at_def)

lemma callback_raises:
  assumes "fetch_ok r = Inl e"
  shows "loadInfo_callback a g cc ip r s = \<lparr>st = s, effects = [], thrown = Some e\<rparr>"
  using assms by (simp add: loadInfo_callback_def)

section \<open>Availability tracking\<close>

text \<open>
  Claim C1, as the code has it: a failing tick publishes one alert alarm observation
  whatever the flag \<open>sentUnavailableAlarm\<close> holds, so also on every failing tick while the
  device is already unavailable; only the recovery observation is edge triggered: a
  successful tick publishes one normal alarm observation when the flag was true, and
  no alarm observation otherwise.
\<close>

theorem alarm_observations_of_tick:
  "alarm_obs (effects (loadInfo_callback a g cc ip r s)) =
     (case fetch_ok r of
        Inl e \<Rightarrow> []
      | Inr False \<Rightarrow> [alert_obs]
      | Inr True \<Rightarrow> if sentUnavailableAlarm s = Some True then [normal_obs] else [])"
proof (cases "fetch_ok r")
  case (Inl e)
  then show ?thesis by (simp add: callback_raises alarm_obs_def)
next
  case (Inr b)
  show ?thesis
  proof (cases b)
    case True
    with Inr have ok: "fetch_ok r = Inr True" by simp
    from ok_tick [OF ok, of s a g cc ip] show ?thesis by (simp add: ok)
  next
    case False
    with Inr have ko: "fetch_ok r = Inr False" by simp
    from failing_any [OF ko, of a g cc ip s] show ?thesis by (simp add: ko)
  qed
qed

text \<open>
  Claim C1 as stated fails: with the flag already true, a refused connection publishes
  the alert alarm observation once more.
\<close>

theorem repeated_failure_counterexample:
  "sentUnavailableAlarm unavailable_state = Some True
   \<and> fetch_ok refused_reply = Inr False
   \<and> alarm_obs (effects (loadInfo_callback sample_app node_globals sample_camel sample_ip
        refused_reply unavailable_state)) = [alert_obs]"
  by (simp add: unavailable_state_def init_state_def refused_reply_def fetch_ok_def
      loadInfo_callback_def printRequestError_def setProviderError_def sample_app_def
      alarm_obs_def getAlarmDelta_def alarm_path_def alert_obs_def Let_def)

text \<open>
  Claim C3: a failing tick (a transport error, or a status other than 200) while the
  flag is not set publishes exactly one alarm observation, at
  \<open>notifications.redhead.daqUnavailable\<close> with state \<open>alert\<close>, methods \<open>visual\<close> and
  \<open>sound\<close> and the message "The DAQ module is unavailable", and leaves the flag true.
\<close>

theorem first_failure_alert:
  assumes "fetch_ok r = Inr False" and "sentUnavailableAlarm s \<noteq> Some True"
  shows "alarm_obs (effects (loadInfo_callback a g cc ip r s)) =
           [\<lparr>path = ''notifications.redhead.daqUnavailable'',
             val = JObj [(''state'', JStr ''alert''),
                         (''method'', JArr [JStr ''visual'', JStr ''sound'']),
                         (''message'', JStr ''The DAQ module is unavailable'')]\<rparr>]
       \<and> sentUnavailableAlarm (st (loadInfo_callback a g cc ip r s)) = Some True"
  using failing_any [OF assms(1), of a g cc ip s] by (simp add: alert_obs_def)

theorem first_failure_alert_witness:
  "fetch_ok http_500_reply = Inr False
   \<and> sentUnavailableAlarm init_state \<noteq> Some True
   \<and> alarm_obs (effects (loadInfo_callback sample_app node_globals sample_camel sample_ip
        http_500_reply init_state)) =
           [\<lparr>path = ''notifications.redhead.daqUnavailable'',
             val = JObj [(''state'', JStr ''alert''),
                         (''method'', JArr [JStr ''visual'', JStr ''sound'']),
                         (''message'', JStr ''The DAQ module is unavailable'')]\<rparr>]
   \<and> sentUnavailableAlarm (st (loadInfo_callback sample_app node_globals sample_camel sample_ip
        http_500_reply init_state)) = Some True"
proof -
  have h1: "fetch_ok http_500_reply = Inr False"
    by (simp add: fetch_ok_def http_500_reply_def)
  have h2: "sentUnavailableAlarm init_state \<noteq> Some True"
    by (simp add: init_state_def)
  from first_failure_alert [OF h1 h2] h1 h2 show ?thesis by simp
qed

text \<open>
  Claim C4: a successful tick while the flag is true publishes exactly one alarm
  observation, with state \<open>normal\<close> and the message "The DAQ module is now available",
  clears the flag and sets the status message to "Connected to " followed by the address;
  a successful tick while the flag is not set publishes no alarm observation.
\<close>

theorem recovery_normal_alarm:
  assumes "fetch_ok r = Inr True"
  shows "(sentUnavailableAlarm s = Some True \<longrightarrow>
            alarm_obs (effects (loadInfo_callback a g cc ip r s)) =
              [\<lparr>path = ''notifications.redhead.daqUnavailable'',
                val = JObj [(''state'', JStr ''normal''),
                            (''method'', JArr [JStr ''visual'', JStr ''sound'']),
                            (''message'', JStr ''The DAQ module is now available'')]\<rparr>]
          \<and> sentUnavailableAlarm (st (loadInfo_callback a g cc ip r s)) = Some False
          \<and> statusMessage (st (loadInfo_callback a g cc ip r s)) = Some (''Connected to '' @ ip))
       \<and> (sentUnavailableAlarm s \<noteq> Some True \<longrightarrow>
            alarm_obs (effects (loadInfo_callback a g cc ip r s)) = [])"
  using ok_tick [OF assms, of s a g cc ip] by (simp add: normal_obs_def)

theorem recovery_normal_alarm_witness:
  "fetch_ok lamp1_reply = Inr True
   \<and> sentUnavailableAlarm unavailable_state = Some True
   \<and> alarm_obs (effects (loadInfo_callback sample_app lights_globals sample_camel sample_ip
        lamp1_reply unavailable_state)) =
        [\<lparr>path = ''notifications.redhead.daqUnavailable'',
          val = JObj [(''state'', JStr ''normal''),
                      (''method'', JArr [JStr ''visual'', JStr ''sound'']),
                      (''message'', JStr ''The DAQ module is now available'')]\<rparr>]
   \<and> sentUnavailableAlarm (st (loadInfo_callback sample_app lights_globals sample_camel sample_ip
        lamp1_reply unavailable_state)) = Some False
   \<and> statusMessage (st (loadInfo_callback sample_app lights_globals sample_camel sample_ip
        lamp1_reply unavailable_state)) = Some ''Connected to 192.168.1.20''
   \<and> sentUnavailableAlarm init_state \<noteq> Some True
   \<and> alarm_obs (effects (loadInfo_callback sample_app lights_globals sample_camel sample_ip
        lamp1_reply init_state)) = []"
proof -
  have h1: "fetch_ok lamp1_reply = Inr True"
    by (simp add: fetch_ok_def lamp1_reply_def)
  have h2: "sentUnavailableAlarm unavailable_state = Some True"
    by (simp add: unavailable_state_def)
  have h3: "sentUnavailableAlarm init_state \<noteq> Some True"
    by (simp add: init_state_def)
  from recovery_normal_alarm [OF h1, of unavailable_state sample_app lights_globals sample_camel sample_ip]
    recovery_normal_alarm [OF h1, of init_state sample_app lights_globals sample_camel sample_ip]
    h1 h2 h3
  show ?thesis by (simp add: sample_ip_def)
qed

section \<open>A status other than 200\<close>

text \<open>
  With no error object and a status other than 200 the callback publishes the alert and
  sets the flag, then \<open>printRequestError\<close> reads \<open>error.message\<close> of \<open>null\<close>: the
  callback ends with a \<open>TypeError\<close> and the status message is left as it was. With an
  error object the same branch ends normally and sets the status message.
\<close>

lemma non_200_tick:
  assumes "error r = None" "response r = Some resp" "statusCode resp \<noteq> 200"
  shows "loadInfo_callback a g cc ip r s =
    \<lparr>st = s\<lparr>sentUnavailableAlarm := Some True\<rparr>,
     effects = [HandleMessage plugin_id
                  (getAlarmDelta alarm_path ''alert'' ''The DAQ module is unavailable'')],
     thrown = Some (TypeError ''message'')\<rparr>"
  using assms by (simp add: loadInfo_callback_def fetch_ok_def printRequestError_def Let_def)

lemma transport_error_tick:
  assumes "error r = Some e"
  shows "thrown (loadInfo_callback a g cc ip r s) = None
       \<and> statusMessage (st (loadInfo_callback a g cc ip r s))
           = Some (''error: '' @ to_string (message e))"
  using assms
  by (simp add: loadInfo_callback_def fetch_ok_def printRequestError_def setProviderError_def
      Let_def)

text \<open>
  Claim C8, evaluated on a reply with status 500 and no error object, from the initial
  state: the alert is published and the flag set, but the callback raises a \<open>TypeError\<close>
  and the status message stays undefined instead of becoming "error: ...".
\<close>

theorem http_500_tick_raises:
  "loadInfo_callback sample_app node_globals sample_camel sample_ip http_500_reply init_state =
     \<lparr>st = init_state\<lparr>sentUnavailableAlarm := Some True\<rparr>,
      effects = [HandleMessage ''signalk-redhead-daq''
                   \<lparr>updates = [\<lparr>values_of = [alert_obs]\<rparr>]\<rparr>],
      thrown = Some (TypeError ''message'')\<rparr>
   \<and> plugin_statusMessage (st (loadInfo_callback sample_app node_globals sample_camel sample_ip
        http_500_reply init_state)) = None"
  by (simp add: loadInfo_callback_def fetch_ok_def printRequestError_def Let_def
      http_500_reply_def init_state_def plugin_statusMessage_def plugin_id_def
      getAlarmDelta_def alarm_path_def alert_obs_def)

section \<open>Starting and the status accessor\<close>

text \<open>Whatever \<open>load\<close> is bound to, \<open>start\<close> itself issues no request.\<close>

lemma start_issues_no_request: "Request u m \<notin> set (effects (plugin_start g props s))"
  by (simp add: plugin_start_def startLoading_def split: option.splits ext_call.splits)

text \<open>Each firing of the timer issues the request of \<open>loadInfo\<close>.\<close>

lemma timer_fire_request:
  "timer_fire ip = [Request (''http://'' @ ip @ ''/state.xml'') ''GET'']"
  by (simp add: timer_fire_def loadInfo_def)

text \<open>When a global \<open>load\<close> exists and returns, the timer is armed, with a period of
  5000 ms when \<open>refreshRate\<close> is absent.\<close>

lemma start_arms_timer_when_load_returns:
  assumes "load g = Some ExtReturns"
  shows "timers (st (plugin_start g props s)) = timers s @ [(next_timer s, interval_ms props)]
       \<and> (refreshRate props = None \<longrightarrow> interval_ms props = 5000)"
  using assms by (simp add: plugin_start_def startLoading_def interval_ms_def)

text \<open>
  Claim C2, evaluated under Node.js, where \<open>load\<close> is not defined: \<open>start\<close> raises a
  \<open>ReferenceError\<close> at its first statement; no request is issued and no timer is armed.
\<close>

theorem start_raises_reference_error:
  "plugin_start node_globals sample_config init_state =
     \<lparr>st = init_state, effects = [], thrown = Some (ReferenceError ''load'')\<rparr>
   \<and> timers (st (plugin_start node_globals sample_config init_state)) = []"
  by (simp add: plugin_start_def startLoading_def node_globals_def init_state_def)

text \<open>
  Claim C10: the status accessor returns \<open>undefined\<close> in the initial state and still
  does after \<open>start\<close>, whatever the configuration and the global environment; \<open>start\<close>
  and \<open>stop\<close> never write the status message, only the callback of a request does.
\<close>

theorem statusMessage_undefined_before_tick:
  "plugin_statusMessage init_state = None
   \<and> plugin_statusMessage (st (plugin_start g props init_state)) = None
   \<and> plugin_statusMessage (st (plugin_start g props s)) = plugin_statusMessage s
   \<and> plugin_statusMessage (st (plugin_stop s)) = plugin_statusMessage s"
  by (simp add: plugin_statusMessage_def init_state_def plugin_start_def startLoading_def
      plugin_stop_def split: option.splits ext_call.splits)

section \<open>Translation of a record\<close>

text \<open>
  When \<open>hueType\<close> is bound to \<open>groups\<close>, a record is translated from \<open>light.action\<close>
  (brightness and colour fields) and \<open>light.state.any_on\<close>, under the path segment
  \<open>groups\<close>.
\<close>

lemma group_record_translation:
  assumes "hueType g = Some ''groups''" "cc (name l) = Inr c"
    and "state l = Some ls" "action l = Some a"
  shows "light_values g cc l =
    Inr ([\<lparr>path = ''electrical.switches.hue.groups.'' @ c @ ''.state'',
            val = of_bool_field (any_on ls)\<rparr>,
          \<lparr>path = ''electrical.switches.hue.groups.'' @ c @ ''.dimmingLevel'',
            val = div_field (bri a) 255\<rparr>,
          \<lparr>path = ''electrical.switches.hue.groups.'' @ c @ ''.meta'',
            val = JObj [(''type'', JStr ''dimmer''),
                        (''displayName'', of_str_field (name l)),
                        (''hueModel'', of_str_field (modelid l)),
                        (''canDimWhenOff'', JBool False)]\<rparr>]
         @ color_values (''electrical.switches.hue.groups.'' @ c) a)"
  using assms by (simp add: light_values_def Let_def base_def)

lemma group1_values:
  "light_values groups_globals sample_camel group1 =
     Inr [\<lparr>path = ''electrical.switches.hue.groups.salon.state'', val = JBool False\<rparr>,
          \<lparr>path = ''electrical.switches.hue.groups.salon.dimmingLevel'', val = JNum (51 / 255)\<rparr>,
          \<lparr>path = ''electrical.switches.hue.groups.salon.meta'',
            val = JObj [(''type'', JStr ''dimmer''), (''displayName'', JStr ''salon''),
                        (''hueModel'', Undefined), (''canDimWhenOff'', JBool False)]\<rparr>,
          \<lparr>path = ''electrical.switches.hue.groups.salon.colorMode'', val = JStr ''temperature''\<rparr>,
          \<lparr>path = ''electrical.switches.hue.groups.salon.temperature'', val = JNum 4000\<rparr>]"
  by (simp add: light_values_def group1_def groups_globals_def sample_camel_def Let_def base_def
      color_values_def colorModeMap_get_def colorModeMap_def)

lemma forEach_no_throw:
  assumes "hueType g = Some k" "list_all (well_formed k cc) (map snd b)" "set ks \<subseteq> fst ` set b"
  shows "snd (forEach_keys g cc b ks) = None"
  using assms(3)
proof (induction ks)
  case Nil
  then show ?case by simp
next
  case (Cons x xs)
  from Cons.prems obtain lx where lx: "map_of b x = Some lx"
    by (metis domD dom_map_of_conv_image_fst list.set_intros(1) subset_iff)
  then have "lx \<in> snd ` set b" by (metis map_of_SomeD snd_conv image_eqI)
  with assms(2) have "well_formed k cc lx" by (auto simp: list_all_iff)
  then obtain vx where vx: "light_values g cc lx = Inr vx"
    using well_formed_Inr [OF assms(1)] by blast
  from Cons.prems have "set xs \<subseteq> fst ` set b" by simp
  from Cons.IH [OF this] lx vx show ?case by simp
qed

text \<open>
  When \<open>hueType\<close> is bound and every record of the body is well formed, a successful
  tick ends normally and publishes, for each record, one delta that holds its state,
  dimming level and meta observations.
\<close>

lemma tick_publishes_record:
  assumes "fetch_ok r = Inr True" "hueType g = Some k"
    and "list_all (well_formed k cc) (map snd (body r))" "distinct (map fst (body r))"
    and "(key, l) \<in> set (body r)"
    and "cc (name l) = Inr c" "state l = Some ls" "state_source k l = Some s"
  shows "thrown (loadInfo_callback a g cc ip r ps) = None
    \<and> (\<exists>vs. record_delta vs \<in> set (effects (loadInfo_callback a g cc ip r ps))
         \<and> \<lparr>path = base @ ''.'' @ k @ ''.'' @ c @ ''.state'', val = of_bool_field (on_source k ls)\<rparr>
              \<in> set vs
         \<and> \<lparr>path = base @ ''.'' @ k @ ''.'' @ c @ ''.dimmingLevel'', val = div_field (bri s) 255\<rparr>
              \<in> set vs
         \<and> \<lparr>path = base @ ''.'' @ k @ ''.'' @ c @ ''.meta'',
              val = JObj [(''type'', JStr ''dimmer''),
                          (''displayName'', of_str_field (name l)),
                          (''hueModel'', of_str_field (modelid l)),
                          (''canDimWhenOff'', JBool False)]\<rparr> \<in> set vs)"
proof -
  have m: "map_of (body r) key = Some l"
    using assms(4,5) by simp
  have k: "key \<in> set (map fst (body r))"
    using assms(5) by force
  have sub: "set (map fst (body r)) \<subseteq> fst ` set (body r)" by simp
  from forEach_well_formed [OF assms(2,3) m k sub] obtain vs where
    vs: "light_values g cc l = Inr vs"
      "record_delta vs \<in> set (fst (forEach_keys g cc (body r) (map fst (body r))))"
    by blast
  have nt: "snd (forEach_keys g cc (body r) (map fst (body r))) = None"
    by (rule forEach_no_throw [OF assms(2,3) sub])
  from vs(1) light_values_bound [of g k cc l c ls s] assms(2,6,7,8)
  have "vs = [\<lparr>path = base @ ''.'' @ k @ ''.'' @ c @ ''.state'', val = of_bool_field (on_source k ls)\<rparr>,
          \<lparr>path = base @ ''.'' @ k @ ''.'' @ c @ ''.dimmingLevel'', val = div_field (bri s) 255\<rparr>,
          \<lparr>path = base @ ''.'' @ k @ ''.'' @ c @ ''.meta'',
            val = JObj [(''type'', JStr ''dimmer''),
                        (''displayName'', of_str_field (name l)),
                        (''hueModel'', of_str_field (modelid l)),
                        (''canDimWhenOff'', JBool False)]\<rparr>]
         @ color_values (base @ ''.'' @ k @ ''.'' @ c) s"
    by simp
  then have mem: "\<lparr>path = base @ ''.'' @ k @ ''.'' @ c @ ''.state'', val = of_bool_field (on_source k ls)\<rparr>
              \<in> set vs"
     "\<lparr>path = base @ ''.'' @ k @ ''.'' @ c @ ''.dimmingLevel'', val = div_field (bri s) 255\<rparr>
              \<in> set vs"
     "\<lparr>path = base @ ''.'' @ k @ ''.'' @ c @ ''.meta'',
              val = JObj [(''type'', JStr ''dimmer''),
                          (''displayName'', of_str_field (name l)),
                          (''hueModel'', of_str_field (modelid l)),
                          (''canDimWhenOff'', JBool False)]\<rparr> \<in> set vs"
    by simp_all
  have "record_delta vs \<in> set (effects (loadInfo_callback a g cc ip r ps))"
    unfolding callback_ok [OF assms(1)] using vs(2) by simp
  moreover have "thrown (loadInfo_callback a g cc ip r ps) = None"
    unfolding callback_ok [OF assms(1)] using nt by simp
  ultimately show ?thesis using mem by blast
qed

text \<open>
  The record \<open>Lamp1\<close> under \<open>lights\<close>: its observations, and how close the three numbers
  are to 0.502, 0.1524 and 0.784.
\<close>

lemma lamp1_values:
  assumes "cc (Some ''Lamp1'') = Inr ''lamp1''"
  shows "light_values \<lparr>hueType = Some ''lights'', load = ld\<rparr> cc lamp1 =
     Inr [\<lparr>path = ''electrical.switches.hue.lights.lamp1.state'', val = JBool True\<rparr>,
          \<lparr>path = ''electrical.switches.hue.lights.lamp1.dimmingLevel'', val = JNum (128 / 255)\<rparr>,
          \<lparr>path = ''electrical.switches.hue.lights.lamp1.meta'',
            val = JObj [(''type'', JStr ''dimmer''), (''displayName'', JStr ''Lamp1''),
                        (''hueModel'', Undefined), (''canDimWhenOff'', JBool False)]\<rparr>,
          \<lparr>path = ''electrical.switches.hue.lights.lamp1.colorMode'', val = JStr ''hsb''\<rparr>,
          \<lparr>path = ''electrical.switches.hue.lights.lamp1.hue'', val = JNum (10000 / 182.04 / 360)\<rparr>,
          \<lparr>path = ''electrical.switches.hue.lights.lamp1.saturation'', val = JNum (200 / 255)\<rparr>]
   \<and> \<bar>(128::real) / 255 - 0.502\<bar> < 0.0005
   \<and> \<bar>(10000::real) / 182.04 / 360 - 0.1524\<bar> < 0.0005
   \<and> \<bar>(200::real) / 255 - 0.784\<bar> < 0.0005"
  using assms
  by (simp add: light_values_def lamp1_def lamp1_state_def Let_def base_def color_values_def
      colorModeMap_get_def colorModeMap_def)

text \<open>
  Claim C5, evaluated under Node.js on a body holding one group record: \<open>hueType\<close> is
  not defined, the translation of the record raises a \<open>ReferenceError\<close> at line 94, before
  \<open>action\<close> or \<open>any_on\<close> is read, and no observation of the record is published.
\<close>

theorem group_tick_reference_error:
  "light_values node_globals sample_camel group1 = Inl (ReferenceError ''hueType'')
   \<and> loadInfo_callback sample_app node_globals sample_camel sample_ip group1_reply init_state =
     \<lparr>st = init_state\<lparr>statusMessage := Some ''Connected to 192.168.1.20''\<rparr>,
      effects = [SetProviderStatus ''Connected to 192.168.1.20''],
      thrown = Some (ReferenceError ''hueType'')\<rparr>"
  by (simp add: loadInfo_callback_def fetch_ok_def group1_reply_def light_values_def
      node_globals_def setProviderStatus_def sample_app_def sample_ip_def init_state_def Let_def)

text \<open>
  Claim C6, evaluated under Node.js on a body holding the record \<open>Lamp1\<close>: the status
  is set, then the translation of the record raises a \<open>ReferenceError\<close> and no batch is
  published, so the state, dimming level and meta observations are missing.
\<close>

theorem lamp1_tick_reference_error:
  "loadInfo_callback sample_app node_globals sample_camel sample_ip lamp1_reply init_state =
     \<lparr>st = init_state\<lparr>statusMessage := Some ''Connected to 192.168.1.20''\<rparr>,
      effects = [SetProviderStatus ''Connected to 192.168.1.20''],
      thrown = Some (ReferenceError ''hueType'')\<rparr>
   \<and> concat (map published (effects (loadInfo_callback sample_app node_globals sample_camel
        sample_ip lamp1_reply init_state))) = []"
  by (simp add: loadInfo_callback_def fetch_ok_def lamp1_reply_def light_values_def
      node_globals_def setProviderStatus_def sample_app_def sample_ip_def init_state_def Let_def)

section \<open>Colour mode and colour temperature\<close>

text \<open>
  Claim C7, as the code has it: a record that is translated and whose \<open>colormode\<close> is a
  non-empty string emits exactly one \<open>colorMode\<close> observation, whose value is
  \<open>colorModeMap[colormode]\<close>: \<open>hsb\<close> for \<open>hs\<close>, \<open>temperature\<close> for \<open>ct\<close>, \<open>cie\<close> for
  \<open>xy\<close>, and \<open>undefined\<close> for every other value that is not the name of a member
  inherited from \<open>Object.prototype\<close>. There is no sentinel.
\<close>

theorem colorMode_mapping:
  assumes "hueType g = Some k" "cc (name l) = Inr c" "state l = Some ls"
    and "state_source k l = Some s" "colormode s = Some cm" "cm \<noteq> []"
  shows "values_at (base @ ''.'' @ k @ ''.'' @ c @ ''.colorMode'') (emitted g cc l)
           = [colorModeMap_get cm]
       \<and> colorModeMap_get ''hs'' = JStr ''hsb''
       \<and> colorModeMap_get ''ct'' = JStr ''temperature''
       \<and> colorModeMap_get ''xy'' = JStr ''cie''
       \<and> (cm \<notin> set [''hs'', ''ct'', ''xy''] \<and> cm \<notin> set object_prototype_names
            \<longrightarrow> colorModeMap_get cm = Undefined)"
proof -
  have "values_at ((base @ ''.'' @ k @ ''.'' @ c) @ ''.colorMode'') (emitted g cc l)
           = [colorModeMap_get cm]"
    unfolding emitted_bound [of g k cc l c ls s, OF assms(1-4)] values_at_append
      colorMode_at [OF assms(5,6)]
    by (simp add: values_at_def)
  moreover have "colorModeMap_get ''hs'' = JStr ''hsb''"
    "colorModeMap_get ''ct'' = JStr ''temperature''"
    "colorModeMap_get ''xy'' = JStr ''cie''"
    by (simp_all add: colorModeMap_get_def colorModeMap_def)
  moreover have "cm \<notin> set [''hs'', ''ct'', ''xy''] \<and> cm \<notin> set object_prototype_names
            \<longrightarrow> colorModeMap_get cm = Undefined"
    by (simp add: colorModeMap_get_def colorModeMap_def)
  ultimately show ?thesis by simp
qed

theorem colorMode_mapping_witness:
  "hueType lights_globals = Some ''lights''
   \<and> sample_camel (name gradient_lamp) = Inr ''lamp1''
   \<and> state gradient_lamp = Some gradient_state
   \<and> state_source ''lights'' gradient_lamp = Some gradient_state
   \<and> colormode gradient_state = Some ''gradient''
   \<and> ''gradient'' \<noteq> []
   \<and> ''gradient'' \<notin> set [''hs'', ''ct'', ''xy'']
   \<and> ''gradient'' \<notin> set object_prototype_names
   \<and> values_at (base @ ''.'' @ ''lights'' @ ''.'' @ ''lamp1'' @ ''.colorMode'')
        (emitted lights_globals sample_camel gradient_lamp) = [colorModeMap_get ''gradient'']
   \<and> colorModeMap_get ''gradient'' = Undefined
   \<and> colorModeMap_get ''hs'' = JStr ''hsb''"
proof -
  have h: "hueType lights_globals = Some ''lights''"
    "sample_camel (name gradient_lamp) = Inr ''lamp1''"
    "state gradient_lamp = Some gradient_state"
    "state_source ''lights'' gradient_lamp = Some gradient_state"
    "colormode gradient_state = Some ''gradient''"
    "''gradient'' \<noteq> []"
    by (simp_all add: lights_globals_def sample_camel_def gradient_lamp_def gradient_state_def
        state_source_def)
  have n: "''gradient'' \<notin> set [''hs'', ''ct'', ''xy'']"
    "''gradient'' \<notin> set object_prototype_names"
    by (simp_all add: object_prototype_names_def)
  from colorMode_mapping [of lights_globals "''lights''" sample_camel gradient_lamp "''lamp1''"
      gradient_state gradient_state "''gradient''", OF h] h n
  show ?thesis by simp
qed

text \<open>
  Claim C7 as stated fails: under \<open>lights\<close>, a lamp whose colormode is \<open>gradient\<close> emits
  a \<open>colorMode\<close> observation whose value is \<open>undefined\<close>, not a sentinel string.
\<close>

theorem unknown_colormode_counterexample:
  "values_at ''electrical.switches.hue.lights.lamp1.colorMode''
     (emitted lights_globals sample_camel gradient_lamp) = [Undefined]
   \<and> values_at ''electrical.switches.hue.lights.lamp1.colorMode''
     (emitted lights_globals sample_camel gradient_lamp) \<noteq> [JStr ''unrecognized'']"
  by (simp add: emitted_def light_values_def lights_globals_def sample_camel_def gradient_lamp_def
      gradient_state_def Let_def base_def color_values_def colorModeMap_get_def colorModeMap_def
      object_prototype_names_def values_at_def)

text \<open>
  Claim C9, as the code has it: a record that is translated, whose \<open>colormode\<close> is a
  non-empty string and whose \<open>ct\<close> is present and not zero, emits exactly one
  \<open>temperature\<close> observation, \<open>1000000 / ct\<close>, whatever its other fields hold; a record
  whose \<open>colormode\<close> is absent or empty emits none, even when \<open>ct\<close> is present.
\<close>

theorem temperature_needs_colormode:
  assumes "hueType g = Some k" "cc (name l) = Inr c" "state l = Some ls"
    and "state_source k l = Some s"
  shows "(colormode s = Some cm \<and> cm \<noteq> [] \<and> ct s = Some t \<and> t \<noteq> 0 \<longrightarrow>
           values_at (base @ ''.'' @ k @ ''.'' @ c @ ''.temperature'') (emitted g cc l)
             = [JNum (1000000 / t)])
       \<and> (colormode s = None \<or> colormode s = Some [] \<longrightarrow>
           values_at (base @ ''.'' @ k @ ''.'' @ c @ ''.temperature'') (emitted g cc l) = [])"
proof -
  have e: "values_at ((base @ ''.'' @ k @ ''.'' @ c) @ ''.temperature'') (emitted g cc l)
      = values_at ((base @ ''.'' @ k @ ''.'' @ c) @ ''.temperature'')
          (color_values (base @ ''.'' @ k @ ''.'' @ c) s)"
    unfolding emitted_bound [of g k cc l c ls s, OF assms(1-4)] values_at_append
    by (simp add: values_at_def)
  show ?thesis
    using e temperature_at [of s cm t "base @ ''.'' @ k @ ''.'' @ c"]
      temperature_none [of s "base @ ''.'' @ k @ ''.'' @ c"]
    by auto
qed

theorem temperature_needs_colormode_witness:
  "hueType lights_globals = Some ''lights''
   \<and> sample_camel (name ct_lamp) = Inr ''lamp1''
   \<and> state ct_lamp = Some ct_state
   \<and> state_source ''lights'' ct_lamp = Some ct_state
   \<and> colormode ct_state = Some ''ct'' \<and> ''ct'' \<noteq> [] \<and> ct ct_state = Some 250 \<and> (250::real) \<noteq> 0
   \<and> values_at (base @ ''.'' @ ''lights'' @ ''.'' @ ''lamp1'' @ ''.temperature'')
        (emitted lights_globals sample_camel ct_lamp) = [JNum 4000]"
proof -
  have h: "hueType lights_globals = Some ''lights''"
    "sample_camel (name ct_lamp) = Inr ''lamp1''"
    "state ct_lamp = Some ct_state"
    "state_source ''lights'' ct_lamp = Some ct_state"
    by (simp_all add: lights_globals_def sample_camel_def ct_lamp_def state_source_def)
  have c: "colormode ct_state = Some ''ct''" "ct ct_state = Some 250"
    by (simp_all add: ct_state_def)
  from temperature_needs_colormode [of lights_globals "''lights''" sample_camel ct_lamp "''lamp1''"
      ct_state ct_state "''ct''" 250, OF h] h c
  show ?thesis by simp
qed

text \<open>
  Claim C9 as stated fails: under \<open>lights\<close>, a lamp that reports \<open>ct\<close> = 366 and no
  \<open>colormode\<close> emits no \<open>temperature\<close> observation.
\<close>

theorem ct_without_colormode_counterexample:
  "(\<exists>s. state ct_only_lamp = Some s \<and> ct s = Some 366)
   \<and> values_at ''electrical.switches.hue.lights.lamp1.temperature''
     (emitted lights_globals sample_camel ct_only_lamp) = []"
  by (simp add: emitted_def light_values_def lights_globals_def sample_camel_def ct_only_lamp_def
      Let_def base_def color_values_def values_at_def)

end
